theory Spec2Isabelle
  imports Main "HOL-Library.Word"
begin

section \<open>Values of the two object models\<close>

text \<open>
  The converter of \<^verbatim>\<open>kmip/pie/factory.py\<close> moves key-management objects between the
  Pie (simplified) hierarchy and the core (protocol) hierarchy. Python values whose type
  the converter never inspects are carried as \<open>pyval\<close>; a dictionary is a map from its
  string keys, so that two dictionaries are equal exactly when Python's \<^verbatim>\<open>==\<close> says so.
\<close>

type_synonym bytes = "8 word list"

text \<open>A member of one of the enumerations of \<^verbatim>\<open>kmip.core.enums\<close>: class name, member name.\<close>

datatype enum = Enum (enum_class: string) (enum_member: string)

abbreviation X_509 :: enum where
  "X_509 \<equiv> Enum ''CertificateType'' ''X_509''"

abbreviation OPAQUE :: enum where
  "OPAQUE \<equiv> Enum ''KeyFormatType'' ''OPAQUE''"

abbreviation CERTIFICATE :: enum where
  "CERTIFICATE \<equiv> Enum ''ObjectType'' ''CERTIFICATE''"

datatype pyval =
    PyNone
  | PyBool bool
  | PyInt int
  | PyStr string
  | PyBytes bytes
  | PyEnum enum
  | PyList "pyval list"
  | PyDict "string \<rightharpoonup> pyval"

text \<open>Python truthiness, as used by \<^verbatim>\<open>if x:\<close>.\<close>

fun truthy :: "pyval \<Rightarrow> bool" where
  "truthy PyNone = False"
| "truthy (PyBool b) = b"
| "truthy (PyInt i) = (i \<noteq> 0)"
| "truthy (PyStr s) = (s \<noteq> [])"
| "truthy (PyBytes b) = (b \<noteq> [])"
| "truthy (PyEnum e) = True"
| "truthy (PyList xs) = (xs \<noteq> [])"
| "truthy (PyDict d) = (d \<noteq> Map.empty)"

text \<open>
  The errors a conversion can end in. The first three are the three \<^verbatim>\<open>TypeError\<close>s
  that \<^verbatim>\<open>factory.py\<close> raises itself: "object type unsupported and cannot be converted",
  "core certificate type not supported", and "core key format type not compatible with Pie
  SymmetricKey; expected {0}, observed {1}" (with the two format types). \<open>AttributeError\<close>
  is what Python raises for \<^verbatim>\<open>.value\<close> on \<^verbatim>\<open>None\<close>. \<open>ConstructionValidationError\<close> is
  the \<^verbatim>\<open>TypeError\<close> of a constructor that rejects its arguments.
\<close>

datatype error =
    UnsupportedVariant
  | UnsupportedCertificateType
  | FormatMismatch enum enum
  | AttributeError
  | ConstructionValidationError

subsection \<open>Core (protocol) structures\<close>

text \<open>
  Modelled from the spec: the classes of \<^verbatim>\<open>kmip.core\<close> are outside the sources at hand.
  Their attributes are the ones \<^verbatim>\<open>factory.py\<close> reads and the constructor arguments it
  passes; a field is optional where the factory passes or tests for \<^verbatim>\<open>None\<close>. The
  thirteen cryptographic parameters are nullable and carried without inspection, hence
  \<open>pyval\<close>. A key-information block is a unique identifier with its cryptographic
  parameters (section 3 of the specification).
\<close>

record CryptographicParameters =
  cp_block_cipher_mode :: pyval
  cp_padding_method :: pyval
  cp_hashing_algorithm :: pyval
  cp_key_role_type :: pyval
  cp_digital_signature_algorithm :: pyval
  cp_cryptographic_algorithm :: pyval
  cp_random_iv :: pyval
  cp_iv_length :: pyval
  cp_tag_length :: pyval
  cp_fixed_field_length :: pyval
  cp_invocation_field_length :: pyval
  cp_counter_length :: pyval
  cp_initial_counter_value :: pyval

record KeyInformation =
  ki_unique_identifier :: pyval
  ki_cryptographic_parameters :: CryptographicParameters

record KeyWrappingData =
  kwd_wrapping_method :: pyval
  kwd_encryption_key_information :: "KeyInformation option"
  kwd_mac_signature_key_information :: "KeyInformation option"
  kwd_mac_signature :: pyval
  kwd_iv_counter_nonce :: pyval
  kwd_encoding_option :: pyval

text \<open>
  The wrapper objects of the core model; each holds one value, read as \<^verbatim>\<open>.value\<close>
  (\<^verbatim>\<open>.key_material\<close> for a key value).
\<close>

datatype KeyMaterial = KeyMaterial (km_value: bytes)
datatype KeyValue = KeyValue (kv_key_material: KeyMaterial)
datatype KeyFormatType = KeyFormatType (kft_value: enum)
datatype CryptographicAlgorithm = CryptographicAlgorithm (ca_value: enum)
datatype CryptographicLength = CryptographicLength (cl_value: int)
datatype SecretDataType = SecretDataType (sdt_value: enum)
datatype OpaqueDataType = OpaqueDataType (odt_value: enum)
datatype OpaqueDataValue = OpaqueDataValue (odv_value: bytes)
datatype CertificateType = CertificateType (ct_value: enum)
datatype CertificateValue = CertificateValue (cv_value: bytes)

text \<open>
  \<^verbatim>\<open>cobjects.KeyBlock\<close>, with the six keyword arguments the factory gives it. The factory
  itself passes \<^verbatim>\<open>None\<close> for the compression type, the algorithm, the length and the
  wrapping data, so these four are nullable.
\<close>

record KeyBlock =
  kb_key_format_type :: KeyFormatType
  kb_key_compression_type :: pyval
  kb_key_value :: KeyValue
  kb_cryptographic_algorithm :: "CryptographicAlgorithm option"
  kb_cryptographic_length :: "CryptographicLength option"
  kb_key_wrapping_data :: "KeyWrappingData option"

text \<open>\<^verbatim>\<open>secrets.SymmetricKey\<close>, \<^verbatim>\<open>secrets.PublicKey\<close>, \<^verbatim>\<open>secrets.PrivateKey\<close>: a key block.\<close>

record core_Key =
  ck_key_block :: KeyBlock

record core_Certificate =
  cc_certificate_type :: CertificateType
  cc_certificate_value :: CertificateValue

record core_SecretData =
  csd_secret_data_type :: SecretDataType
  csd_key_block :: KeyBlock

record core_OpaqueObject =
  co_opaque_data_type :: OpaqueDataType
  co_opaque_data_value :: OpaqueDataValue

record core_SplitKey =
  csk_split_key_parts :: int
  csk_key_part_identifier :: int
  csk_split_key_threshold :: int
  csk_split_key_method :: enum
  csk_prime_field_size :: "int option"
  csk_key_block :: KeyBlock

subsection \<open>Pie (simplified) objects\<close>

text \<open>
  Modelled from the spec: the classes of \<^verbatim>\<open>kmip.pie.objects\<close> are outside the sources
  at hand. The fields are those of section 3 of the specification, under the attribute
  names \<^verbatim>\<open>factory.py\<close> reads. The wrapping data of a Pie key is \<^verbatim>\<open>None\<close> or a
  dictionary, and the factory tests it by truthiness, so it stays a \<open>pyval\<close>. A
  certificate also holds the object type its initialiser gave it, read by the
  \<^verbatim>\<open>object_type\<close> property.
\<close>

record pie_Key =
  pk_cryptographic_algorithm :: enum
  pk_cryptographic_length :: int
  pk_value :: bytes
  pk_key_format_type :: enum
  pk_key_wrapping_data :: pyval

record pie_Certificate =
  pc_certificate_type :: enum
  pc_value :: bytes
  pc_cryptographic_usage_masks :: "enum list"
  pc_names :: "string list"
  pc_object_type :: enum

record pie_SecretData =
  psd_value :: bytes
  psd_data_type :: enum

record pie_OpaqueObject =
  po_value :: bytes
  po_opaque_type :: enum

record pie_SplitKey =
  psk_cryptographic_algorithm :: enum
  psk_cryptographic_length :: int
  psk_value :: bytes
  psk_key_format_type :: enum
  psk_key_wrapping_data :: pyval
  psk_split_key_parts :: int
  psk_key_part_identifier :: int
  psk_split_key_threshold :: int
  psk_split_key_method :: enum
  psk_prime_field_size :: "int option"

text \<open>
  What \<^verbatim>\<open>convert\<close> can be handed: an instance of one of the seven classes of either
  hierarchy, or any other Python value.
\<close>

datatype obj =
    Pie_SymmetricKey pie_Key
  | Core_SymmetricKey core_Key
  | Pie_PublicKey pie_Key
  | Core_PublicKey core_Key
  | Pie_PrivateKey pie_Key
  | Core_PrivateKey core_Key
  | Pie_Certificate pie_Certificate
  | Core_Certificate core_Certificate
  | Pie_SecretData pie_SecretData
  | Core_SecretData core_SecretData
  | Pie_OpaqueObject pie_OpaqueObject
  | Core_OpaqueObject core_OpaqueObject
  | Pie_SplitKey pie_SplitKey
  | Core_SplitKey core_SplitKey
  | Unrecognized pyval

text \<open>The class handed to \<^verbatim>\<open>_build_core_key\<close> and \<^verbatim>\<open>_build_pie_key\<close> as \<^verbatim>\<open>cls\<close>.\<close>

datatype key_class = SymmetricKey | PublicKey | PrivateKey

fun secrets_cls :: "key_class \<Rightarrow> core_Key \<Rightarrow> obj" where
  "secrets_cls SymmetricKey = Core_SymmetricKey"
| "secrets_cls PublicKey = Core_PublicKey"
| "secrets_cls PrivateKey = Core_PrivateKey"

fun pobjects_cls :: "key_class \<Rightarrow> pie_Key \<Rightarrow> obj" where
  "pobjects_cls SymmetricKey = Pie_SymmetricKey"
| "pobjects_cls PublicKey = Pie_PublicKey"
| "pobjects_cls PrivateKey = Pie_PrivateKey"

section \<open>The nested structure builders\<close>

text \<open>\<^verbatim>\<open>ObjectFactory._build_cryptographic_parameters\<close>: a dictionary literal of thirteen entries.\<close>

definition build_cryptographic_parameters :: "CryptographicParameters \<Rightarrow> (string \<rightharpoonup> pyval)" where
  "build_cryptographic_parameters v =
     [''block_cipher_mode'' \<mapsto> cp_block_cipher_mode v,
      ''padding_method'' \<mapsto> cp_padding_method v,
      ''hashing_algorithm'' \<mapsto> cp_hashing_algorithm v,
      ''key_role_type'' \<mapsto> cp_key_role_type v,
      ''digital_signature_algorithm'' \<mapsto> cp_digital_signature_algorithm v,
      ''cryptographic_algorithm'' \<mapsto> cp_cryptographic_algorithm v,
      ''random_iv'' \<mapsto> cp_random_iv v,
      ''iv_length'' \<mapsto> cp_iv_length v,
      ''tag_length'' \<mapsto> cp_tag_length v,
      ''fixed_field_length'' \<mapsto> cp_fixed_field_length v,
      ''invocation_field_length'' \<mapsto> cp_invocation_field_length v,
      ''counter_length'' \<mapsto> cp_counter_length v,
      ''initial_counter_value'' \<mapsto> cp_initial_counter_value v]"

text \<open>
  The expansion of one key-information block inside \<^verbatim>\<open>_build_key_wrapping_data\<close>:
  the empty dictionary unless the block is there (an object is truthy).
\<close>

definition build_key_information :: "KeyInformation option \<Rightarrow> (string \<rightharpoonup> pyval)" where
  "build_key_information info =
     (case info of
        None \<Rightarrow> Map.empty
      | Some i \<Rightarrow>
          [''unique_identifier'' \<mapsto> ki_unique_identifier i,
           ''cryptographic_parameters'' \<mapsto>
              PyDict (build_cryptographic_parameters (ki_cryptographic_parameters i))])"

text \<open>\<^verbatim>\<open>ObjectFactory._build_key_wrapping_data\<close>.\<close>

definition build_key_wrapping_data :: "KeyWrappingData option \<Rightarrow> pyval" where
  "build_key_wrapping_data v =
     (case v of
        None \<Rightarrow> PyNone
      | Some w \<Rightarrow>
          (let encryption_key_information =
                 build_key_information (kwd_encryption_key_information w);
               mac_signature_key_information =
                 build_key_information (kwd_mac_signature_key_information w)
           in PyDict
                [''wrapping_method'' \<mapsto> kwd_wrapping_method w,
                 ''encryption_key_information'' \<mapsto> PyDict encryption_key_information,
                 ''mac_signature_key_information'' \<mapsto> PyDict mac_signature_key_information,
                 ''mac_signature'' \<mapsto> kwd_mac_signature w,
                 ''iv_counter_nonce'' \<mapsto> kwd_iv_counter_nonce w,
                 ''encoding_option'' \<mapsto> kwd_encoding_option w]))"

section \<open>Constructors outside the sources\<close>

text \<open>A keyword argument that was not given has its default, \<^verbatim>\<open>None\<close>.\<close>

definition kwarg :: "(string \<rightharpoonup> pyval) \<Rightarrow> string \<Rightarrow> pyval" where
  "kwarg d k = (case d k of None \<Rightarrow> PyNone | Some v \<Rightarrow> v)"

definition cryptographic_parameter_names :: "string set" where
  "cryptographic_parameter_names =
     {''block_cipher_mode'', ''padding_method'', ''hashing_algorithm'', ''key_role_type'',
      ''digital_signature_algorithm'', ''cryptographic_algorithm'', ''random_iv'',
      ''iv_length'', ''tag_length'', ''fixed_field_length'', ''invocation_field_length'',
      ''counter_length'', ''initial_counter_value''}"

definition key_information_names :: "string set" where
  "key_information_names = {''unique_identifier'', ''cryptographic_parameters''}"

definition key_wrapping_data_names :: "string set" where
  "key_wrapping_data_names =
     {''wrapping_method'', ''encryption_key_information'', ''mac_signature_key_information'',
      ''mac_signature'', ''iv_counter_nonce'', ''encoding_option''}"

text \<open>
  Modelled from the spec: \<^verbatim>\<open>cobjects.KeyWrappingData(**d)\<close> and the two structures it
  nests are outside the sources at hand. Section 3 of the specification gives the fields
  of the wrapping data, of a key-information block and of the cryptographic parameters
  (all nullable, carried without validation), and says that the absence of a
  key-information block is an empty mapping in the simplified representation. So the
  constructors read each field from the keyword of its name, take an absent or empty
  key-information mapping as no block, and reject a keyword they do not have or a value
  of another shape with a Python \<^verbatim>\<open>TypeError\<close>.
\<close>

definition CryptographicParameters_kwargs ::
  "(string \<rightharpoonup> pyval) \<Rightarrow> error + CryptographicParameters" where
  "CryptographicParameters_kwargs d =
     (if dom d \<subseteq> cryptographic_parameter_names then
        Inr \<lparr>cp_block_cipher_mode = kwarg d ''block_cipher_mode'',
             cp_padding_method = kwarg d ''padding_method'',
             cp_hashing_algorithm = kwarg d ''hashing_algorithm'',
             cp_key_role_type = kwarg d ''key_role_type'',
             cp_digital_signature_algorithm = kwarg d ''digital_signature_algorithm'',
             cp_cryptographic_algorithm = kwarg d ''cryptographic_algorithm'',
             cp_random_iv = kwarg d ''random_iv'',
             cp_iv_length = kwarg d ''iv_length'',
             cp_tag_length = kwarg d ''tag_length'',
             cp_fixed_field_length = kwarg d ''fixed_field_length'',
             cp_invocation_field_length = kwarg d ''invocation_field_length'',
             cp_counter_length = kwarg d ''counter_length'',
             cp_initial_counter_value = kwarg d ''initial_counter_value''\<rparr>
      else Inl ConstructionValidationError)"

text \<open>
  Modelled from the spec: the constructor of a key-information block of \<^verbatim>\<open>kmip.core\<close>,
  from the keywords \<^verbatim>\<open>unique_identifier\<close> and \<^verbatim>\<open>cryptographic_parameters\<close>; the
  parameters come as the dictionary \<open>build_cryptographic_parameters\<close> makes.
\<close>

definition KeyInformation_kwargs :: "(string \<rightharpoonup> pyval) \<Rightarrow> error + KeyInformation" where
  "KeyInformation_kwargs d =
     (if dom d \<subseteq> key_information_names then
        (case kwarg d ''cryptographic_parameters'' of
           PyDict p \<Rightarrow>
             (case CryptographicParameters_kwargs p of
                Inl e \<Rightarrow> Inl e
              | Inr cp \<Rightarrow>
                  Inr \<lparr>ki_unique_identifier = kwarg d ''unique_identifier'',
                       ki_cryptographic_parameters = cp\<rparr>)
         | _ \<Rightarrow> Inl ConstructionValidationError)
      else Inl ConstructionValidationError)"

text \<open>
  Modelled from the spec: what the wrapping data stores for a key-information keyword.
  \<^verbatim>\<open>None\<close> and the empty dictionary are no block.
\<close>

definition KeyInformation_of :: "pyval \<Rightarrow> error + KeyInformation option" where
  "KeyInformation_of v =
     (case v of
        PyNone \<Rightarrow> Inr None
      | PyDict d \<Rightarrow>
          (if d = Map.empty then Inr None
           else case KeyInformation_kwargs d of Inl e \<Rightarrow> Inl e | Inr i \<Rightarrow> Inr (Some i))
      | _ \<Rightarrow> Inl ConstructionValidationError)"

text \<open>
  Modelled from the spec: \<^verbatim>\<open>cobjects.KeyWrappingData\<close> called with the keywords of a
  dictionary.
\<close>

definition KeyWrappingData_kwargs :: "(string \<rightharpoonup> pyval) \<Rightarrow> error + KeyWrappingData" where
  "KeyWrappingData_kwargs d =
     (if dom d \<subseteq> key_wrapping_data_names then
        (case KeyInformation_of (kwarg d ''encryption_key_information'') of
           Inl e \<Rightarrow> Inl e
         | Inr encryption_key_information \<Rightarrow>
             (case KeyInformation_of (kwarg d ''mac_signature_key_information'') of
                Inl e \<Rightarrow> Inl e
              | Inr mac_signature_key_information \<Rightarrow>
                  Inr \<lparr>kwd_wrapping_method = kwarg d ''wrapping_method'',
                       kwd_encryption_key_information = encryption_key_information,
                       kwd_mac_signature_key_information = mac_signature_key_information,
                       kwd_mac_signature = kwarg d ''mac_signature'',
                       kwd_iv_counter_nonce = kwarg d ''iv_counter_nonce'',
                       kwd_encoding_option = kwarg d ''encoding_option''\<rparr>))
      else Inl ConstructionValidationError)"

text \<open>
  The call \<^verbatim>\<open>cobjects.KeyWrappingData(**x)\<close> on a Python value: \<^verbatim>\<open>**\<close> takes a mapping
  only.
\<close>

definition KeyWrappingData_splat :: "pyval \<Rightarrow> error + KeyWrappingData" where
  "KeyWrappingData_splat x =
     (case x of PyDict d \<Rightarrow> KeyWrappingData_kwargs d | _ \<Rightarrow> Inl ConstructionValidationError)"

text \<open>
  Modelled from the spec: what the sources at hand do not show of the classes of
  \<^verbatim>\<open>kmip.pie.objects\<close> that the factory constructs, taken as parameters of the model.
  \<^item> \<open>SymmetricKey_format\<close>: the format type of a simplified symmetric key, which section 3
    of the specification has derived from its algorithm and material.
  \<^item> \<open>SymmetricKey_accepts\<close>, \<open>AsymmetricKey_accepts\<close>: the field values with which the
    constructors of the key classes do not raise. Section 7 of the specification gives
    every key builder a construction error for an invalid value.
  \<^item> \<open>X509Certificate_name\<close>: the name an X.509 certificate gets when none is given.
\<close>

record pie_classes =
  SymmetricKey_format :: "enum \<Rightarrow> bytes \<Rightarrow> enum"
  SymmetricKey_accepts :: "enum \<Rightarrow> int \<Rightarrow> bytes \<Rightarrow> bool"
  AsymmetricKey_accepts :: "key_class \<Rightarrow> enum \<Rightarrow> int \<Rightarrow> bytes \<Rightarrow> enum \<Rightarrow> bool"
  X509Certificate_name :: string

text \<open>
  Modelled from the spec: \<^verbatim>\<open>pobjects.SymmetricKey(algorithm, length, value,
  key_wrapping_data=...)\<close>. It is given no format type and derives it; it raises when it
  does not accept the values, and otherwise stores them.
\<close>

definition pobjects_SymmetricKey ::
  "pie_classes \<Rightarrow> enum \<Rightarrow> int \<Rightarrow> bytes \<Rightarrow> pyval \<Rightarrow> error + pie_Key" where
  "pobjects_SymmetricKey P algorithm len val key_wrapping_data =
     (if SymmetricKey_accepts P algorithm len val then
        Inr \<lparr>pk_cryptographic_algorithm = algorithm,
             pk_cryptographic_length = len,
             pk_value = val,
             pk_key_format_type = SymmetricKey_format P algorithm val,
             pk_key_wrapping_data = key_wrapping_data\<rparr>
      else Inl ConstructionValidationError)"

text \<open>
  Modelled from the spec: \<^verbatim>\<open>pobjects.PublicKey\<close> and \<^verbatim>\<open>pobjects.PrivateKey\<close>, called as
  \<^verbatim>\<open>cls(algorithm, length, value, format_type, key_wrapping_data=...)\<close>. They raise when
  they do not accept the values, and otherwise store them, the format type included.
\<close>

definition pobjects_AsymmetricKey ::
  "pie_classes \<Rightarrow> key_class \<Rightarrow> enum \<Rightarrow> int \<Rightarrow> bytes \<Rightarrow> enum \<Rightarrow> pyval \<Rightarrow> error + pie_Key" where
  "pobjects_AsymmetricKey P cls algorithm len val format_type key_wrapping_data =
     (if AsymmetricKey_accepts P cls algorithm len val format_type then
        Inr \<lparr>pk_cryptographic_algorithm = algorithm,
             pk_cryptographic_length = len,
             pk_value = val,
             pk_key_format_type = format_type,
             pk_key_wrapping_data = key_wrapping_data\<rparr>
      else Inl ConstructionValidationError)"

text \<open>
  Modelled from the spec: \<^verbatim>\<open>secrets.Certificate(certificate_type, certificate_value)\<close>
  wraps its two arguments, which \<^verbatim>\<open>_build_pie_certificate\<close> reads back through
  \<^verbatim>\<open>.certificate_type.value\<close> and \<^verbatim>\<open>.certificate_value.value\<close>.
\<close>

definition secrets_Certificate :: "enum \<Rightarrow> bytes \<Rightarrow> core_Certificate" where
  "secrets_Certificate certificate_type certificate_value =
     \<lparr>cc_certificate_type = CertificateType certificate_type,
      cc_certificate_value = CertificateValue certificate_value\<rparr>"

subsection \<open>The Certificate entity\<close>

text \<open>
  Modelled from the spec: \<^verbatim>\<open>pobjects.Certificate\<close> is outside the sources at hand; its
  tests are not. Section 4.3 of the specification gives the construction contract: the
  certificate type is a member of \<^verbatim>\<open>enums.CertificateType\<close>, the value a byte sequence,
  the masks \<^verbatim>\<open>None\<close> (then the empty list) or a list of members of
  \<^verbatim>\<open>enums.CryptographicUsageMask\<close>, the name a string, which becomes the only entry of
  \<open>names\<close>. The initialiser gives the object the certificate tag as its object type.
\<close>

definition is_certificate_type :: "pyval \<Rightarrow> bool" where
  "is_certificate_type v =
     (case v of PyEnum e \<Rightarrow> enum_class e = ''CertificateType'' | _ \<Rightarrow> False)"

definition is_cryptographic_usage_mask :: "pyval \<Rightarrow> bool" where
  "is_cryptographic_usage_mask v =
     (case v of PyEnum e \<Rightarrow> enum_class e = ''CryptographicUsageMask'' | _ \<Rightarrow> False)"

text \<open>
  Modelled from the spec: the four checks of the construction contract of
  \<^verbatim>\<open>pobjects.Certificate\<close>, in the order section 4.3 lists them, and the fields stored
  when they pass.
\<close>

definition is_bytes :: "pyval \<Rightarrow> bool" where
  "is_bytes v = (case v of PyBytes b \<Rightarrow> True | _ \<Rightarrow> False)"

definition is_str :: "pyval \<Rightarrow> bool" where
  "is_str v = (case v of PyStr s \<Rightarrow> True | _ \<Rightarrow> False)"

definition is_mask_list :: "pyval \<Rightarrow> bool" where
  "is_mask_list v =
     (case v of PyList ms \<Rightarrow> list_all is_cryptographic_usage_mask ms | _ \<Rightarrow> False)"

fun the_enum :: "pyval \<Rightarrow> enum" where
  "the_enum (PyEnum e) = e"
| "the_enum _ = Enum [] []"

fun the_bytes :: "pyval \<Rightarrow> bytes" where
  "the_bytes (PyBytes b) = b"
| "the_bytes _ = []"

fun the_str :: "pyval \<Rightarrow> string" where
  "the_str (PyStr s) = s"
| "the_str _ = []"

fun the_masks :: "pyval \<Rightarrow> enum list" where
  "the_masks (PyList ms) = map the_enum ms"
| "the_masks _ = []"

definition Certificate_init :: "pyval \<Rightarrow> pyval \<Rightarrow> pyval \<Rightarrow> pyval \<Rightarrow> error + pie_Certificate" where
  "Certificate_init certificate_type val masks name =
     (if \<not> is_certificate_type certificate_type then Inl ConstructionValidationError
      else if \<not> is_bytes val then Inl ConstructionValidationError
      else if masks \<noteq> PyNone \<and> \<not> is_mask_list masks then Inl ConstructionValidationError
      else if \<not> is_str name then Inl ConstructionValidationError
      else Inr \<lparr>pc_certificate_type = the_enum certificate_type,
                pc_value = the_bytes val,
                pc_cryptographic_usage_masks = the_masks masks,
                pc_names = [the_str name],
                pc_object_type = CERTIFICATE\<rparr>)"

text \<open>
  The two classes of the test suite: \<^verbatim>\<open>objects.Certificate\<close> and its subclass
  \<^verbatim>\<open>DummyCertificate\<close>.
\<close>

datatype certificate_class = Certificate | DummyCertificate

text \<open>
  Modelled from the spec: \<^verbatim>\<open>pobjects.Certificate\<close> is an abstract base class. It leaves
  to a concrete specialization the representation and the equality of a certificate
  (sections 4.3 and 9 of the specification); it has the initialiser and the validation
  itself.
\<close>

definition abstract_methods :: "string set" where
  "abstract_methods = {''__repr__'', ''__str__'', ''__eq__'', ''__ne__''}"

text \<open>
  Modelled from the spec: the methods a class defines. Those of \<^verbatim>\<open>DummyCertificate\<close> are
  the six of the test file; those of \<^verbatim>\<open>objects.Certificate\<close> are the two that
  \<^verbatim>\<open>DummyCertificate\<close> calls through \<^verbatim>\<open>super()\<close>, the initialiser and the validation
  that the specification has every specialization share.
\<close>

fun defined_methods :: "certificate_class \<Rightarrow> string set" where
  "defined_methods Certificate = {''__init__'', ''validate''}"
| "defined_methods DummyCertificate =
     {''__init__'', ''validate'', ''__repr__'', ''__str__'', ''__eq__'', ''__ne__''}"

text \<open>
  Modelled from the spec: calling a class. Python refuses, with a \<^verbatim>\<open>TypeError\<close>, to
  instantiate a class that leaves an abstract method undefined, before any initialiser
  runs. \<^verbatim>\<open>DummyCertificate.__init__\<close> hands its four arguments to the initialiser of the
  base class.
\<close>

definition instantiate ::
  "certificate_class \<Rightarrow> pyval \<Rightarrow> pyval \<Rightarrow> pyval \<Rightarrow> pyval \<Rightarrow> error + pie_Certificate" where
  "instantiate cls certificate_type val masks name =
     (if abstract_methods \<subseteq> defined_methods cls then
        Certificate_init certificate_type val masks name
      else Inl ConstructionValidationError)"

text \<open>\<^verbatim>\<open>DummyCertificate(certificate_type, value)\<close>, the two keyword arguments at their defaults.\<close>

definition DummyCertificate_default :: "pyval \<Rightarrow> pyval \<Rightarrow> error + pie_Certificate" where
  "DummyCertificate_default certificate_type val =
     instantiate DummyCertificate certificate_type val PyNone (PyStr ''Certificate'')"

text \<open>
  Modelled from the spec: \<^verbatim>\<open>pobjects.X509Certificate(value)\<close>, the specialization for
  the X.509 type: the initialiser of the contract with that type, no masks, and the
  default name of the class.
\<close>

definition X509Certificate :: "pie_classes \<Rightarrow> bytes \<Rightarrow> error + pie_Certificate" where
  "X509Certificate P val =
     Certificate_init (PyEnum X_509) (PyBytes val) PyNone (PyStr (X509Certificate_name P))"

section \<open>The converter\<close>

text \<open>\<^verbatim>\<open>ObjectFactory._build_pie_certificate\<close>.\<close>

definition build_pie_certificate :: "pie_classes \<Rightarrow> core_Certificate \<Rightarrow> error + obj" where
  "build_pie_certificate P cert =
     (let certificate_type = ct_value (cc_certificate_type cert);
          val = cv_value (cc_certificate_value cert)
      in if certificate_type = X_509 then
           (case X509Certificate P val of Inl e \<Rightarrow> Inl e | Inr c \<Rightarrow> Inr (Pie_Certificate c))
         else Inl UnsupportedCertificateType)"

text \<open>
  \<^verbatim>\<open>ObjectFactory._build_pie_key\<close>. Reading \<^verbatim>\<open>.value\<close> of an algorithm or a length
  that the key block does not have raises \<^verbatim>\<open>AttributeError\<close>.
\<close>

definition build_pie_key :: "pie_classes \<Rightarrow> core_Key \<Rightarrow> key_class \<Rightarrow> error + obj" where
  "build_pie_key P key cls =
     (case kb_cryptographic_algorithm (ck_key_block key) of
        None \<Rightarrow> Inl AttributeError
      | Some cryptographic_algorithm \<Rightarrow>
     (case kb_cryptographic_length (ck_key_block key) of
        None \<Rightarrow> Inl AttributeError
      | Some cryptographic_length \<Rightarrow>
     (let algorithm = ca_value cryptographic_algorithm;
          len = cl_value cryptographic_length;
          val = km_value (kv_key_material (kb_key_value (ck_key_block key)));
          format_type = kft_value (kb_key_format_type (ck_key_block key));
          key_wrapping_data = kb_key_wrapping_data (ck_key_block key)
      in if cls = SymmetricKey then
           (case pobjects_SymmetricKey P algorithm len val
                   (build_key_wrapping_data key_wrapping_data) of
              Inl e \<Rightarrow> Inl e
            | Inr key' \<Rightarrow>
                if pk_key_format_type key' \<noteq> format_type then
                  Inl (FormatMismatch (pk_key_format_type key') format_type)
                else Inr (Pie_SymmetricKey key'))
         else
           (case pobjects_AsymmetricKey P cls algorithm len val format_type
                   (build_key_wrapping_data key_wrapping_data) of
              Inl e \<Rightarrow> Inl e
            | Inr key' \<Rightarrow> Inr (pobjects_cls cls key')))))"

text \<open>\<^verbatim>\<open>ObjectFactory._build_pie_secret_data\<close>.\<close>

definition build_pie_secret_data :: "core_SecretData \<Rightarrow> error + obj" where
  "build_pie_secret_data secret =
     (let secret_data_type = sdt_value (csd_secret_data_type secret);
          val = km_value (kv_key_material (kb_key_value (csd_key_block secret)))
      in Inr (Pie_SecretData \<lparr>psd_value = val, psd_data_type = secret_data_type\<rparr>))"

text \<open>\<^verbatim>\<open>ObjectFactory._build_pie_opaque_object\<close>.\<close>

definition build_pie_opaque_object :: "core_OpaqueObject \<Rightarrow> error + obj" where
  "build_pie_opaque_object obj =
     (let opaque_type = odt_value (co_opaque_data_type obj);
          val = odv_value (co_opaque_data_value obj)
      in Inr (Pie_OpaqueObject \<lparr>po_value = val, po_opaque_type = opaque_type\<rparr>))"

text \<open>\<^verbatim>\<open>ObjectFactory._build_pie_split_key\<close>.\<close>

definition build_pie_split_key :: "core_SplitKey \<Rightarrow> error + obj" where
  "build_pie_split_key secret =
     (case kb_cryptographic_algorithm (csk_key_block secret) of
        None \<Rightarrow> Inl AttributeError
      | Some cryptographic_algorithm \<Rightarrow>
     (case kb_cryptographic_length (csk_key_block secret) of
        None \<Rightarrow> Inl AttributeError
      | Some cryptographic_length \<Rightarrow>
     (let algorithm = ca_value cryptographic_algorithm
      in Inr (Pie_SplitKey
           \<lparr>psk_cryptographic_algorithm = algorithm,
            psk_cryptographic_length = cl_value cryptographic_length,
            psk_value = km_value (kv_key_material (kb_key_value (csk_key_block secret))),
            psk_key_format_type = kft_value (kb_key_format_type (csk_key_block secret)),
            psk_key_wrapping_data =
              build_key_wrapping_data (kb_key_wrapping_data (csk_key_block secret)),
            psk_split_key_parts = csk_split_key_parts secret,
            psk_key_part_identifier = csk_key_part_identifier secret,
            psk_split_key_threshold = csk_split_key_threshold secret,
            psk_split_key_method = csk_split_key_method secret,
            psk_prime_field_size = csk_prime_field_size secret\<rparr>))))"

text \<open>
  The three lines \<^verbatim>\<open>key_wrapping_data = None; if x: key_wrapping_data =
  cobjects.KeyWrappingData(**x)\<close> that \<^verbatim>\<open>_build_core_key\<close> and
  \<^verbatim>\<open>_build_core_split_key\<close> both have.
\<close>

definition core_key_wrapping_data :: "pyval \<Rightarrow> error + KeyWrappingData option" where
  "core_key_wrapping_data x =
     (if truthy x then
        (case KeyWrappingData_splat x of Inl e \<Rightarrow> Inl e | Inr w \<Rightarrow> Inr (Some w))
      else Inr None)"

text \<open>\<^verbatim>\<open>ObjectFactory._build_core_key\<close>.\<close>

definition build_core_key :: "pie_Key \<Rightarrow> key_class \<Rightarrow> error + obj" where
  "build_core_key key cls =
     (let algorithm = pk_cryptographic_algorithm key;
          len = pk_cryptographic_length key;
          val = pk_value key;
          format_type = pk_key_format_type key;
          key_material = KeyMaterial val;
          key_value = KeyValue key_material
      in case core_key_wrapping_data (pk_key_wrapping_data key) of
           Inl e \<Rightarrow> Inl e
         | Inr key_wrapping_data \<Rightarrow>
             (let key_block =
                    \<lparr>kb_key_format_type = KeyFormatType format_type,
                     kb_key_compression_type = PyNone,
                     kb_key_value = key_value,
                     kb_cryptographic_algorithm = Some (CryptographicAlgorithm algorithm),
                     kb_cryptographic_length = Some (CryptographicLength len),
                     kb_key_wrapping_data = key_wrapping_data\<rparr>
              in Inr (secrets_cls cls \<lparr>ck_key_block = key_block\<rparr>)))"

text \<open>\<^verbatim>\<open>ObjectFactory._build_core_certificate\<close>.\<close>

definition build_core_certificate :: "pie_Certificate \<Rightarrow> error + obj" where
  "build_core_certificate cert =
     Inr (Core_Certificate (secrets_Certificate (pc_certificate_type cert) (pc_value cert)))"

text \<open>\<^verbatim>\<open>ObjectFactory._build_core_secret_data\<close>.\<close>

definition build_core_secret_data :: "pie_SecretData \<Rightarrow> error + obj" where
  "build_core_secret_data secret =
     (let secret_data_type = psd_data_type secret;
          val = psd_value secret;
          key_material = KeyMaterial val;
          key_value = KeyValue key_material;
          key_block =
            \<lparr>kb_key_format_type = KeyFormatType OPAQUE,
             kb_key_compression_type = PyNone,
             kb_key_value = key_value,
             kb_cryptographic_algorithm = None,
             kb_cryptographic_length = None,
             kb_key_wrapping_data = None\<rparr>;
          data_type = SecretDataType secret_data_type
      in Inr (Core_SecretData \<lparr>csd_secret_data_type = data_type, csd_key_block = key_block\<rparr>))"

text \<open>\<^verbatim>\<open>ObjectFactory._build_core_split_key\<close>.\<close>

definition build_core_split_key :: "pie_SplitKey \<Rightarrow> error + obj" where
  "build_core_split_key secret =
     (let key_material = KeyMaterial (psk_value secret);
          key_value = KeyValue key_material
      in case core_key_wrapping_data (psk_key_wrapping_data secret) of
           Inl e \<Rightarrow> Inl e
         | Inr key_wrapping_data \<Rightarrow>
             (let key_block =
                    \<lparr>kb_key_format_type = KeyFormatType (psk_key_format_type secret),
                     kb_key_compression_type = PyNone,
                     kb_key_value = key_value,
                     kb_cryptographic_algorithm =
                       Some (CryptographicAlgorithm (psk_cryptographic_algorithm secret)),
                     kb_cryptographic_length =
                       Some (CryptographicLength (psk_cryptographic_length secret)),
                     kb_key_wrapping_data = key_wrapping_data\<rparr>
              in Inr (Core_SplitKey
                   \<lparr>csk_split_key_parts = psk_split_key_parts secret,
                    csk_key_part_identifier = psk_key_part_identifier secret,
                    csk_split_key_threshold = psk_split_key_threshold secret,
                    csk_split_key_method = psk_split_key_method secret,
                    csk_prime_field_size = psk_prime_field_size secret,
                    csk_key_block = key_block\<rparr>)))"

text \<open>\<^verbatim>\<open>ObjectFactory._build_core_opaque_object\<close>.\<close>

definition build_core_opaque_object :: "pie_OpaqueObject \<Rightarrow> error + obj" where
  "build_core_opaque_object obj =
     (let opaque_type = po_opaque_type obj;
          val = po_value obj;
          opaque_data_type = OpaqueDataType opaque_type;
          opaque_data_value = OpaqueDataValue val
      in Inr (Core_OpaqueObject
           \<lparr>co_opaque_data_type = opaque_data_type,
            co_opaque_data_value = opaque_data_value\<rparr>))"

text \<open>\<^verbatim>\<open>ObjectFactory.convert\<close>: the chain of \<^verbatim>\<open>isinstance\<close> tests, in its order.\<close>

fun convert :: "pie_classes \<Rightarrow> obj \<Rightarrow> error + obj" where
  "convert P (Pie_SymmetricKey k) = build_core_key k SymmetricKey"
| "convert P (Core_SymmetricKey k) = build_pie_key P k SymmetricKey"
| "convert P (Pie_PublicKey k) = build_core_key k PublicKey"
| "convert P (Core_PublicKey k) = build_pie_key P k PublicKey"
| "convert P (Pie_PrivateKey k) = build_core_key k PrivateKey"
| "convert P (Core_PrivateKey k) = build_pie_key P k PrivateKey"
| "convert P (Pie_Certificate c) = build_core_certificate c"
| "convert P (Core_Certificate c) = build_pie_certificate P c"
| "convert P (Pie_SecretData s) = build_core_secret_data s"
| "convert P (Core_SecretData s) = build_pie_secret_data s"
| "convert P (Pie_OpaqueObject obj) = build_core_opaque_object obj"
| "convert P (Core_OpaqueObject obj) = build_pie_opaque_object obj"
| "convert P (Pie_SplitKey s) = build_core_split_key s"
| "convert P (Core_SplitKey s) = build_pie_split_key s"
| "convert P (Unrecognized v) = Inl UnsupportedVariant"

text \<open>Whether an object is an instance of one of the fourteen classes \<^verbatim>\<open>convert\<close> tests for.\<close>

fun recognized :: "obj \<Rightarrow> bool" where
  "recognized (Unrecognized v) = False"
| "recognized x = True"


section \<open>Well-formed objects and what a double conversion keeps\<close>









section \<open>Example objects\<close>

text \<open>
  An example of the parameters: every symmetric key has the format type \<^verbatim>\<open>RAW\<close>; a key
  is accepted when its length is the number of bits of its material and, for a public or
  private key, its format type is not \<^verbatim>\<open>OPAQUE\<close>.
\<close>

definition example_classes :: pie_classes where
  "example_classes =
     \<lparr>SymmetricKey_format = (\<lambda>algorithm val. Enum ''KeyFormatType'' ''RAW''),
      SymmetricKey_accepts = (\<lambda>algorithm len val. len = 8 * int (length val)),
      AsymmetricKey_accepts =
        (\<lambda>cls algorithm len val format_type.
           len = 8 * int (length val) \<and> format_type \<noteq> OPAQUE),
      X509Certificate_name = ''X.509 Certificate''\<rparr>"

definition example_bytes :: bytes where
  "example_bytes = [0x30, 0x82, 0x03, 0x12]"


definition example_cryptographic_parameters :: CryptographicParameters where
  "example_cryptographic_parameters =
     \<lparr>cp_block_cipher_mode = PyEnum (Enum ''BlockCipherMode'' ''NIST_KEY_WRAP''),
      cp_padding_method = PyNone,
      cp_hashing_algorithm = PyNone,
      cp_key_role_type = PyNone,
      cp_digital_signature_algorithm = PyNone,
      cp_cryptographic_algorithm = PyEnum (Enum ''CryptographicAlgorithm'' ''AES''),
      cp_random_iv = PyBool False,
      cp_iv_length = PyInt 0,
      cp_tag_length = PyNone,
      cp_fixed_field_length = PyNone,
      cp_invocation_field_length = PyNone,
      cp_counter_length = PyNone,
      cp_initial_counter_value = PyNone\<rparr>"

text \<open>Wrapping data with an encryption key and no MAC or signature key.\<close>

definition example_key_wrapping_data :: KeyWrappingData where
  "example_key_wrapping_data =
     \<lparr>kwd_wrapping_method = PyEnum (Enum ''WrappingMethod'' ''ENCRYPT''),
      kwd_encryption_key_information =
        Some \<lparr>ki_unique_identifier = PyStr ''1'',
              ki_cryptographic_parameters = example_cryptographic_parameters\<rparr>,
      kwd_mac_signature_key_information = None,
      kwd_mac_signature = PyNone,
      kwd_iv_counter_nonce = PyNone,
      kwd_encoding_option = PyEnum (Enum ''EncodingOption'' ''NO_ENCODING'')\<rparr>"

text \<open>A wrapped AES key of the core model, declared \<^verbatim>\<open>RAW\<close>, and the same declared \<^verbatim>\<open>OPAQUE\<close>.\<close>

definition example_core_key :: core_Key where
  "example_core_key =
     \<lparr>ck_key_block =
        \<lparr>kb_key_format_type = KeyFormatType (Enum ''KeyFormatType'' ''RAW''),
         kb_key_compression_type = PyNone,
         kb_key_value = KeyValue (KeyMaterial example_bytes),
         kb_cryptographic_algorithm =
           Some (CryptographicAlgorithm (Enum ''CryptographicAlgorithm'' ''AES'')),
         kb_cryptographic_length = Some (CryptographicLength 32),
         kb_key_wrapping_data = Some example_key_wrapping_data\<rparr>\<rparr>"

definition example_core_key_opaque :: core_Key where
  "example_core_key_opaque =
     \<lparr>ck_key_block =
        (ck_key_block example_core_key)\<lparr>kb_key_format_type := KeyFormatType OPAQUE\<rparr>\<rparr>"

text \<open>An unwrapped AES key of the Pie model.\<close>

definition example_pie_key :: pie_Key where
  "example_pie_key =
     \<lparr>pk_cryptographic_algorithm = Enum ''CryptographicAlgorithm'' ''AES'',
      pk_cryptographic_length = 32,
      pk_value = example_bytes,
      pk_key_format_type = Enum ''KeyFormatType'' ''RAW'',
      pk_key_wrapping_data = PyNone\<rparr>"


text \<open>The wrapped AES key of the core model declared \<^verbatim>\<open>PKCS_1\<close>, and without its length.\<close>

definition example_core_key_pkcs1 :: core_Key where
  "example_core_key_pkcs1 =
     \<lparr>ck_key_block =
        (ck_key_block example_core_key)
          \<lparr>kb_key_format_type := KeyFormatType (Enum ''KeyFormatType'' ''PKCS_1'')\<rparr>\<rparr>"

definition example_core_key_no_length :: core_Key where
  "example_core_key_no_length =
     \<lparr>ck_key_block = (ck_key_block example_core_key_opaque)\<lparr>kb_cryptographic_length := None\<rparr>\<rparr>"


section \<open>Properties of the builders\<close>

text \<open>
  Claim C6. For every source object, \<open>build_cryptographic_parameters\<close> returns a
  dictionary whose keys are exactly the thirteen parameter names, each holding the source's
  field of that name as it is: a \<^verbatim>\<open>None\<close> stays a \<^verbatim>\<open>None\<close>, nothing is checked and
  nothing is defaulted.
\<close>

theorem build_cryptographic_parameters_copies:
  "dom (build_cryptographic_parameters v) =
     {''block_cipher_mode'', ''padding_method'', ''hashing_algorithm'', ''key_role_type'',
      ''digital_signature_algorithm'', ''cryptographic_algorithm'', ''random_iv'',
      ''iv_length'', ''tag_length'', ''fixed_field_length'', ''invocation_field_length'',
      ''counter_length'', ''initial_counter_value''}
   \<and> build_cryptographic_parameters v ''block_cipher_mode'' = Some (cp_block_cipher_mode v)
   \<and> build_cryptographic_parameters v ''padding_method'' = Some (cp_padding_method v)
   \<and> build_cryptographic_parameters v ''hashing_algorithm'' = Some (cp_hashing_algorithm v)
   \<and> build_cryptographic_parameters v ''key_role_type'' = Some (cp_key_role_type v)
   \<and> build_cryptographic_parameters v ''digital_signature_algorithm'' =
        Some (cp_digital_signature_algorithm v)
   \<and> build_cryptographic_parameters v ''cryptographic_algorithm'' =
        Some (cp_cryptographic_algorithm v)
   \<and> build_cryptographic_parameters v ''random_iv'' = Some (cp_random_iv v)
   \<and> build_cryptographic_parameters v ''iv_length'' = Some (cp_iv_length v)
   \<and> build_cryptographic_parameters v ''tag_length'' = Some (cp_tag_length v)
   \<and> build_cryptographic_parameters v ''fixed_field_length'' = Some (cp_fixed_field_length v)
   \<and> build_cryptographic_parameters v ''invocation_field_length'' =
        Some (cp_invocation_field_length v)
   \<and> build_cryptographic_parameters v ''counter_length'' = Some (cp_counter_length v)
   \<and> build_cryptographic_parameters v ''initial_counter_value'' =
        Some (cp_initial_counter_value v)"
  unfolding build_cryptographic_parameters_def by (simp add: insert_commute)

text \<open>
  Claim C5. With no wrapping data the builder returns \<^verbatim>\<open>None\<close>, which is not the
  empty dictionary. With wrapping data it returns a dictionary of exactly six keys; the
  two key-information entries are the empty dictionary when the block is absent, and
  otherwise the unique identifier with the built cryptographic parameters.
\<close>

theorem build_key_wrapping_data_shape:
  "build_key_wrapping_data None = PyNone
   \<and> build_key_wrapping_data None \<noteq> PyDict Map.empty
   \<and> (\<exists>d. build_key_wrapping_data (Some w) = PyDict d
        \<and> dom d = {''wrapping_method'', ''encryption_key_information'',
                    ''mac_signature_key_information'', ''mac_signature'',
                    ''iv_counter_nonce'', ''encoding_option''}
        \<and> d ''wrapping_method'' = Some (kwd_wrapping_method w)
        \<and> d ''encryption_key_information'' =
            Some (PyDict (case kwd_encryption_key_information w of
                            None \<Rightarrow> Map.empty
                          | Some i \<Rightarrow>
                              [''unique_identifier'' \<mapsto> ki_unique_identifier i,
                               ''cryptographic_parameters'' \<mapsto>
                                  PyDict (build_cryptographic_parameters
                                            (ki_cryptographic_parameters i))]))
        \<and> d ''mac_signature_key_information'' =
            Some (PyDict (case kwd_mac_signature_key_information w of
                            None \<Rightarrow> Map.empty
                          | Some i \<Rightarrow>
                              [''unique_identifier'' \<mapsto> ki_unique_identifier i,
                               ''cryptographic_parameters'' \<mapsto>
                                  PyDict (build_cryptographic_parameters
                                            (ki_cryptographic_parameters i))]))
        \<and> d ''mac_signature'' = Some (kwd_mac_signature w)
        \<and> d ''iv_counter_nonce'' = Some (kwd_iv_counter_nonce w)
        \<and> d ''encoding_option'' = Some (kwd_encoding_option w))"
  by (simp add: build_key_wrapping_data_def build_key_information_def Let_def insert_commute)

section \<open>Properties of the converter\<close>

text \<open>
  Claim C7. Converting a Pie secret-data object gives a core secret-data object whose key
  block holds the material, has the format type \<^verbatim>\<open>OPAQUE\<close>, and has no algorithm, no
  length and no wrapping data.
\<close>

theorem secret_data_key_block:
  "\<exists>s'. convert P (Pie_SecretData s) = Inr (Core_SecretData s')
      \<and> km_value (kv_key_material (kb_key_value (csd_key_block s'))) = psd_value s
      \<and> kft_value (kb_key_format_type (csd_key_block s')) = OPAQUE
      \<and> kb_cryptographic_algorithm (csd_key_block s') = None
      \<and> kb_cryptographic_length (csd_key_block s') = None
      \<and> kb_key_wrapping_data (csd_key_block s') = None"
  by (simp add: build_core_secret_data_def Let_def)

text \<open>
  Claim C10. A Pie key or split key whose wrapping data is the empty dictionary converts
  to exactly what the same key with no wrapping data converts to, and the key block of the
  result has no wrapping data: the factory tests the wrapping data by truthiness.
\<close>

theorem empty_wrapping_data_is_dropped:
  "convert P (Pie_SymmetricKey (k\<lparr>pk_key_wrapping_data := PyDict Map.empty\<rparr>)) =
     convert P (Pie_SymmetricKey (k\<lparr>pk_key_wrapping_data := PyNone\<rparr>))
   \<and> (\<exists>c. convert P (Pie_SymmetricKey (k\<lparr>pk_key_wrapping_data := PyDict Map.empty\<rparr>)) =
            Inr (Core_SymmetricKey c)
          \<and> kb_key_wrapping_data (ck_key_block c) = None)
   \<and> convert P (Pie_PublicKey (k\<lparr>pk_key_wrapping_data := PyDict Map.empty\<rparr>)) =
     convert P (Pie_PublicKey (k\<lparr>pk_key_wrapping_data := PyNone\<rparr>))
   \<and> (\<exists>c. convert P (Pie_PublicKey (k\<lparr>pk_key_wrapping_data := PyDict Map.empty\<rparr>)) =
            Inr (Core_PublicKey c)
          \<and> kb_key_wrapping_data (ck_key_block c) = None)
   \<and> convert P (Pie_PrivateKey (k\<lparr>pk_key_wrapping_data := PyDict Map.empty\<rparr>)) =
     convert P (Pie_PrivateKey (k\<lparr>pk_key_wrapping_data := PyNone\<rparr>))
   \<and> (\<exists>c. convert P (Pie_PrivateKey (k\<lparr>pk_key_wrapping_data := PyDict Map.empty\<rparr>)) =
            Inr (Core_PrivateKey c)
          \<and> kb_key_wrapping_data (ck_key_block c) = None)
   \<and> convert P (Pie_SplitKey (s\<lparr>psk_key_wrapping_data := PyDict Map.empty\<rparr>)) =
     convert P (Pie_SplitKey (s\<lparr>psk_key_wrapping_data := PyNone\<rparr>))
   \<and> (\<exists>c. convert P (Pie_SplitKey (s\<lparr>psk_key_wrapping_data := PyDict Map.empty\<rparr>)) =
            Inr (Core_SplitKey c)
          \<and> kb_key_wrapping_data (csk_key_block c) = None)"
  by (simp add: build_core_key_def build_core_split_key_def core_key_wrapping_data_def Let_def)

text \<open>
  Claim C4. A core certificate of the X.509 type converts to a Pie certificate of that
  type carrying the certificate value; a core certificate of any other type is refused
  with the error for an unsupported certificate type.
\<close>

theorem certificate_type_guard:
  "(ct_value (cc_certificate_type c) = X_509 \<longrightarrow>
      (\<exists>p. convert P (Core_Certificate c) = Inr (Pie_Certificate p)
          \<and> pc_certificate_type p = X_509
          \<and> pc_value p = cv_value (cc_certificate_value c)))
   \<and> (ct_value (cc_certificate_type c) \<noteq> X_509 \<longrightarrow>
        convert P (Core_Certificate c) = Inl UnsupportedCertificateType)"
  by (simp add: build_pie_certificate_def X509Certificate_def Certificate_init_def
      is_certificate_type_def is_bytes_def is_str_def Let_def)

text \<open>The guard at an X.509 certificate and at a certificate of another type.\<close>

theorem certificate_type_guard_witness:
  "ct_value (cc_certificate_type (secrets_Certificate X_509 example_bytes)) = X_509
   \<and> (\<exists>p. convert example_classes (Core_Certificate (secrets_Certificate X_509 example_bytes)) =
            Inr (Pie_Certificate p)
          \<and> pc_certificate_type p = X_509 \<and> pc_value p = example_bytes)
   \<and> ct_value (cc_certificate_type
        (secrets_Certificate (Enum ''CertificateType'' ''PGP'') example_bytes)) \<noteq> X_509
   \<and> convert example_classes
        (Core_Certificate (secrets_Certificate (Enum ''CertificateType'' ''PGP'') example_bytes)) =
      Inl UnsupportedCertificateType"
  using certificate_type_guard [of "secrets_Certificate X_509 example_bytes" example_classes]
    certificate_type_guard
      [of "secrets_Certificate (Enum ''CertificateType'' ''PGP'') example_bytes" example_classes]
  by (simp add: secrets_Certificate_def)

text \<open>
  Claim C3, as amended. Take a core key block with an algorithm and a length. As a
  symmetric key whose values the Pie class accepts, it is refused with the format
  mismatch error (expected, observed) whenever its declared format type is not the one
  derived from its algorithm and material. As a public or a private key it is never
  refused with that error: no format type is compared, and when the Pie class accepts the
  values the conversion returns the Pie key with the declared format type.
\<close>

theorem format_type_guard:
  assumes "kb_cryptographic_algorithm (ck_key_block k) = Some a"
    and "kb_cryptographic_length (ck_key_block k) = Some l"
  shows
    "(SymmetricKey_accepts P (ca_value a) (cl_value l)
          (km_value (kv_key_material (kb_key_value (ck_key_block k)))) \<and>
        SymmetricKey_format P (ca_value a)
          (km_value (kv_key_material (kb_key_value (ck_key_block k)))) \<noteq>
        kft_value (kb_key_format_type (ck_key_block k)) \<longrightarrow>
        convert P (Core_SymmetricKey k) =
          Inl (FormatMismatch
                (SymmetricKey_format P (ca_value a)
                   (km_value (kv_key_material (kb_key_value (ck_key_block k)))))
                (kft_value (kb_key_format_type (ck_key_block k)))))
     \<and> (AsymmetricKey_accepts P PublicKey (ca_value a) (cl_value l)
          (km_value (kv_key_material (kb_key_value (ck_key_block k))))
          (kft_value (kb_key_format_type (ck_key_block k))) \<longrightarrow>
        (\<exists>p. convert P (Core_PublicKey k) = Inr (Pie_PublicKey p)
            \<and> pk_key_format_type p = kft_value (kb_key_format_type (ck_key_block k))))
     \<and> (AsymmetricKey_accepts P PrivateKey (ca_value a) (cl_value l)
          (km_value (kv_key_material (kb_key_value (ck_key_block k))))
          (kft_value (kb_key_format_type (ck_key_block k))) \<longrightarrow>
        (\<exists>p. convert P (Core_PrivateKey k) = Inr (Pie_PrivateKey p)
            \<and> pk_key_format_type p = kft_value (kb_key_format_type (ck_key_block k))))
     \<and> convert P (Core_PublicKey k) \<noteq> Inl (FormatMismatch expected observed)
     \<and> convert P (Core_PrivateKey k) \<noteq> Inl (FormatMismatch expected observed)"
  using assms
  by (simp add: build_pie_key_def pobjects_SymmetricKey_def pobjects_AsymmetricKey_def Let_def)

text \<open>
  The guard at a wrapped AES key declared \<^verbatim>\<open>OPAQUE\<close> where the derivation gives
  \<^verbatim>\<open>RAW\<close>, and at the same key declared \<^verbatim>\<open>PKCS_1\<close>.
\<close>

theorem format_type_guard_witness:
  "kb_cryptographic_algorithm (ck_key_block example_core_key_opaque) =
     Some (CryptographicAlgorithm (Enum ''CryptographicAlgorithm'' ''AES''))
   \<and> kb_cryptographic_length (ck_key_block example_core_key_opaque) =
     Some (CryptographicLength 32)
   \<and> SymmetricKey_accepts example_classes (Enum ''CryptographicAlgorithm'' ''AES'') 32
        example_bytes
   \<and> SymmetricKey_format example_classes (Enum ''CryptographicAlgorithm'' ''AES'')
        example_bytes \<noteq> OPAQUE
   \<and> kft_value (kb_key_format_type (ck_key_block example_core_key_opaque)) = OPAQUE
   \<and> convert example_classes (Core_SymmetricKey example_core_key_opaque) =
       Inl (FormatMismatch (Enum ''KeyFormatType'' ''RAW'') OPAQUE)
   \<and> kb_cryptographic_algorithm (ck_key_block example_core_key_pkcs1) =
     Some (CryptographicAlgorithm (Enum ''CryptographicAlgorithm'' ''AES''))
   \<and> kb_cryptographic_length (ck_key_block example_core_key_pkcs1) =
     Some (CryptographicLength 32)
   \<and> AsymmetricKey_accepts example_classes PublicKey (Enum ''CryptographicAlgorithm'' ''AES'')
        32 example_bytes (Enum ''KeyFormatType'' ''PKCS_1'')
   \<and> AsymmetricKey_accepts example_classes PrivateKey (Enum ''CryptographicAlgorithm'' ''AES'')
        32 example_bytes (Enum ''KeyFormatType'' ''PKCS_1'')
   \<and> (\<exists>p. convert example_classes (Core_PublicKey example_core_key_pkcs1) =
            Inr (Pie_PublicKey p)
          \<and> pk_key_format_type p = Enum ''KeyFormatType'' ''PKCS_1'')
   \<and> (\<exists>p. convert example_classes (Core_PrivateKey example_core_key_pkcs1) =
            Inr (Pie_PrivateKey p)
          \<and> pk_key_format_type p = Enum ''KeyFormatType'' ''PKCS_1'')"
proof -
  have a: "kb_cryptographic_algorithm (ck_key_block example_core_key_opaque) =
      Some (CryptographicAlgorithm (Enum ''CryptographicAlgorithm'' ''AES''))"
    by (simp add: example_core_key_opaque_def example_core_key_def)
  have l: "kb_cryptographic_length (ck_key_block example_core_key_opaque) =
      Some (CryptographicLength 32)"
    by (simp add: example_core_key_opaque_def example_core_key_def)
  have v: "km_value (kv_key_material (kb_key_value (ck_key_block example_core_key_opaque))) =
      example_bytes"
    by (simp add: example_core_key_opaque_def example_core_key_def)
  have f: "kft_value (kb_key_format_type (ck_key_block example_core_key_opaque)) = OPAQUE"
    by (simp add: example_core_key_opaque_def)
  have a': "kb_cryptographic_algorithm (ck_key_block example_core_key_pkcs1) =
      Some (CryptographicAlgorithm (Enum ''CryptographicAlgorithm'' ''AES''))"
    by (simp add: example_core_key_pkcs1_def example_core_key_def)
  have l': "kb_cryptographic_length (ck_key_block example_core_key_pkcs1) =
      Some (CryptographicLength 32)"
    by (simp add: example_core_key_pkcs1_def example_core_key_def)
  have v': "km_value (kv_key_material (kb_key_value (ck_key_block example_core_key_pkcs1))) =
      example_bytes"
    by (simp add: example_core_key_pkcs1_def example_core_key_def)
  have f': "kft_value (kb_key_format_type (ck_key_block example_core_key_pkcs1)) =
      Enum ''KeyFormatType'' ''PKCS_1''"
    by (simp add: example_core_key_pkcs1_def)
  have g: "SymmetricKey_accepts example_classes (Enum ''CryptographicAlgorithm'' ''AES'') 32
        example_bytes"
      "SymmetricKey_format example_classes (Enum ''CryptographicAlgorithm'' ''AES'')
        example_bytes = Enum ''KeyFormatType'' ''RAW''"
      "AsymmetricKey_accepts example_classes PublicKey (Enum ''CryptographicAlgorithm'' ''AES'')
        32 example_bytes (Enum ''KeyFormatType'' ''PKCS_1'')"
      "AsymmetricKey_accepts example_classes PrivateKey (Enum ''CryptographicAlgorithm'' ''AES'')
        32 example_bytes (Enum ''KeyFormatType'' ''PKCS_1'')"
    by (simp_all add: example_classes_def example_bytes_def)
  show ?thesis
    using format_type_guard [OF a l, of example_classes]
      format_type_guard [OF a' l', of example_classes] a l a' l' g
    unfolding v f v' f' by simp
qed

text \<open>
  The wrapped AES key declared \<^verbatim>\<open>OPAQUE\<close>, now without a length: its format type is
  not the derived one, and the conversion ends in \<^verbatim>\<open>AttributeError\<close>, not in the format
  mismatch error.
\<close>

theorem format_type_guard_counterexample:
  "kb_cryptographic_algorithm (ck_key_block example_core_key_no_length) =
     Some (CryptographicAlgorithm (Enum ''CryptographicAlgorithm'' ''AES''))
   \<and> km_value (kv_key_material (kb_key_value (ck_key_block example_core_key_no_length))) =
     example_bytes
   \<and> kft_value (kb_key_format_type (ck_key_block example_core_key_no_length)) = OPAQUE
   \<and> SymmetricKey_format example_classes (Enum ''CryptographicAlgorithm'' ''AES'')
        example_bytes = Enum ''KeyFormatType'' ''RAW''
   \<and> convert example_classes (Core_SymmetricKey example_core_key_no_length) =
       Inl AttributeError
   \<and> convert example_classes (Core_SymmetricKey example_core_key_no_length) \<noteq>
       Inl (FormatMismatch (Enum ''KeyFormatType'' ''RAW'') OPAQUE)"
  by (simp add: example_core_key_no_length_def example_core_key_opaque_def
      example_core_key_def example_classes_def build_pie_key_def)

subsection \<open>Dispatch\<close>

lemma constructors_raise_validation_error:
  "CryptographicParameters_kwargs p \<noteq> Inl UnsupportedVariant"
  "KeyInformation_kwargs d \<noteq> Inl UnsupportedVariant"
  "KeyInformation_of v \<noteq> Inl UnsupportedVariant"
  by (auto simp: CryptographicParameters_kwargs_def KeyInformation_kwargs_def
      KeyInformation_of_def split: sum.splits pyval.splits if_splits)

lemma core_key_wrapping_data_not_unsupported:
  "core_key_wrapping_data v \<noteq> Inl UnsupportedVariant"
  using constructors_raise_validation_error(3)
  by (auto simp: core_key_wrapping_data_def KeyWrappingData_splat_def
      KeyWrappingData_kwargs_def split: sum.splits pyval.splits if_splits)

lemma recognized_not_unsupported:
  assumes "recognized x"
  shows "convert P x \<noteq> Inl UnsupportedVariant"
proof (cases x)
  case (Pie_SymmetricKey k)
  then show ?thesis
    using core_key_wrapping_data_not_unsupported [of "pk_key_wrapping_data k"]
    by (auto simp: build_core_key_def Let_def split: sum.splits)
next
  case (Core_SymmetricKey k)
  then show ?thesis
    by (simp add: build_pie_key_def pobjects_SymmetricKey_def pobjects_AsymmetricKey_def
        Let_def split: option.splits)
next
  case (Pie_PublicKey k)
  then show ?thesis
    using core_key_wrapping_data_not_unsupported [of "pk_key_wrapping_data k"]
    by (auto simp: build_core_key_def Let_def split: sum.splits)
next
  case (Core_PublicKey k)
  then show ?thesis
    by (simp add: build_pie_key_def pobjects_SymmetricKey_def pobjects_AsymmetricKey_def
        Let_def split: option.splits)
next
  case (Pie_PrivateKey k)
  then show ?thesis
    using core_key_wrapping_data_not_unsupported [of "pk_key_wrapping_data k"]
    by (auto simp: build_core_key_def Let_def split: sum.splits)
next
  case (Core_PrivateKey k)
  then show ?thesis
    by (simp add: build_pie_key_def pobjects_SymmetricKey_def pobjects_AsymmetricKey_def
        Let_def split: option.splits)
next
  case (Pie_Certificate c)
  then show ?thesis by (simp add: build_core_certificate_def)
next
  case (Core_Certificate c)
  then show ?thesis
    by (simp add: build_pie_certificate_def X509Certificate_def Certificate_init_def Let_def
        split: sum.splits)
next
  case (Pie_SecretData s)
  then show ?thesis by (simp add: build_core_secret_data_def Let_def)
next
  case (Core_SecretData s)
  then show ?thesis by (simp add: build_pie_secret_data_def Let_def)
next
  case (Pie_OpaqueObject obj)
  then show ?thesis by (simp add: build_core_opaque_object_def Let_def)
next
  case (Core_OpaqueObject obj)
  then show ?thesis by (simp add: build_pie_opaque_object_def Let_def)
next
  case (Pie_SplitKey s)
  then show ?thesis
    using core_key_wrapping_data_not_unsupported [of "psk_key_wrapping_data s"]
    by (auto simp: build_core_split_key_def Let_def split: sum.splits)
next
  case (Core_SplitKey s)
  then show ?thesis
    by (simp add: build_pie_split_key_def Let_def split: option.splits)
next
  case (Unrecognized v)
  then show ?thesis using assms by simp
qed

lemma unrecognized_unsupported:
  "\<not> recognized x \<Longrightarrow> convert P x = Inl UnsupportedVariant"
  by (cases x) simp_all

text \<open>
  Claim C2. Each of the fourteen recognized classes is handed to the builder of its
  variant and direction. An object of no recognized class ends in the error for an
  unsupported type and returns nothing; an object of a recognized class never ends in
  that error.
\<close>

theorem exhaustive_dispatch:
  "convert P (Pie_SymmetricKey pk) = build_core_key pk SymmetricKey
   \<and> convert P (Core_SymmetricKey ck) = build_pie_key P ck SymmetricKey
   \<and> convert P (Pie_PublicKey pk) = build_core_key pk PublicKey
   \<and> convert P (Core_PublicKey ck) = build_pie_key P ck PublicKey
   \<and> convert P (Pie_PrivateKey pk) = build_core_key pk PrivateKey
   \<and> convert P (Core_PrivateKey ck) = build_pie_key P ck PrivateKey
   \<and> convert P (Pie_Certificate pc) = build_core_certificate pc
   \<and> convert P (Core_Certificate cc) = build_pie_certificate P cc
   \<and> convert P (Pie_SecretData psd) = build_core_secret_data psd
   \<and> convert P (Core_SecretData csd) = build_pie_secret_data csd
   \<and> convert P (Pie_OpaqueObject po) = build_core_opaque_object po
   \<and> convert P (Core_OpaqueObject co) = build_pie_opaque_object co
   \<and> convert P (Pie_SplitKey psk) = build_core_split_key psk
   \<and> convert P (Core_SplitKey csk) = build_pie_split_key csk
   \<and> (\<not> recognized x \<longrightarrow> convert P x = Inl UnsupportedVariant)
   \<and> (recognized x \<longrightarrow> convert P x \<noteq> Inl UnsupportedVariant)"
  using unrecognized_unsupported [of x P] recognized_not_unsupported [of x P]
  by simp

text \<open>The dispatch at a string, at \<^verbatim>\<open>None\<close> and at a Pie symmetric key.\<close>

theorem exhaustive_dispatch_witness:
  "\<not> recognized (Unrecognized (PyStr ''invalid''))
   \<and> convert example_classes (Unrecognized (PyStr ''invalid'')) = Inl UnsupportedVariant
   \<and> \<not> recognized (Unrecognized PyNone)
   \<and> convert example_classes (Unrecognized PyNone) = Inl UnsupportedVariant
   \<and> recognized (Pie_SymmetricKey example_pie_key)
   \<and> convert example_classes (Pie_SymmetricKey example_pie_key) \<noteq> Inl UnsupportedVariant"
  using exhaustive_dispatch [of example_classes _ _ _ _ _ _ _ _ _ _ "Unrecognized (PyStr ''invalid'')"]
    exhaustive_dispatch [of example_classes _ _ _ _ _ _ _ _ _ _ "Unrecognized PyNone"]
    exhaustive_dispatch [of example_classes _ _ _ _ _ _ _ _ _ _ "Pie_SymmetricKey example_pie_key"]
  by simp

section \<open>Properties of the Certificate entity\<close>

text \<open>
  Claim C8. Constructing the concrete specialization fails with a construction error
  when the certificate type is no member of the certificate-type enumeration, when the
  value is no byte sequence, when the masks are given and are not a list of members of
  the usage-mask enumeration, and when the name is no string. With only a valid type and
  value, these two are stored as given, the masks are the empty list and the names are
  the one-element list of the default name.
\<close>

theorem certificate_construction_contract:
  "(\<not> is_certificate_type t \<longrightarrow>
      instantiate DummyCertificate t v m n = Inl ConstructionValidationError)
   \<and> (\<not> is_bytes v \<longrightarrow>
      instantiate DummyCertificate t v m n = Inl ConstructionValidationError)
   \<and> (m \<noteq> PyNone \<and> \<not> is_mask_list m \<longrightarrow>
      instantiate DummyCertificate t v m n = Inl ConstructionValidationError)
   \<and> (\<not> is_str n \<longrightarrow>
      instantiate DummyCertificate t v m n = Inl ConstructionValidationError)
   \<and> (is_certificate_type t \<and> is_bytes v \<longrightarrow>
      DummyCertificate_default t v =
        Inr \<lparr>pc_certificate_type = the_enum t,
             pc_value = the_bytes v,
             pc_cryptographic_usage_masks = [],
             pc_names = [''Certificate''],
             pc_object_type = CERTIFICATE\<rparr>)"
  by (simp add: instantiate_def abstract_methods_def DummyCertificate_default_def
      Certificate_init_def is_str_def)

text \<open>The failing constructions of the test suite, and its successful one.\<close>

theorem certificate_construction_contract_witness:
  "\<not> is_certificate_type (PyStr ''invalid'')
   \<and> instantiate DummyCertificate (PyStr ''invalid'') (PyBytes example_bytes) PyNone
         (PyStr ''Certificate'') = Inl ConstructionValidationError
   \<and> \<not> is_bytes (PyInt 0)
   \<and> instantiate DummyCertificate (PyEnum X_509) (PyInt 0) PyNone (PyStr ''Certificate'') =
       Inl ConstructionValidationError
   \<and> PyStr ''invalid'' \<noteq> PyNone \<and> \<not> is_mask_list (PyStr ''invalid'')
   \<and> instantiate DummyCertificate (PyEnum X_509) (PyBytes example_bytes) (PyStr ''invalid'')
         (PyStr ''Certificate'') = Inl ConstructionValidationError
   \<and> PyList [PyStr ''invalid''] \<noteq> PyNone \<and> \<not> is_mask_list (PyList [PyStr ''invalid''])
   \<and> instantiate DummyCertificate (PyEnum X_509) (PyBytes example_bytes)
         (PyList [PyStr ''invalid'']) (PyStr ''Certificate'') = Inl ConstructionValidationError
   \<and> \<not> is_str (PyInt 0)
   \<and> instantiate DummyCertificate (PyEnum X_509) (PyBytes example_bytes) PyNone (PyInt 0) =
       Inl ConstructionValidationError
   \<and> is_certificate_type (PyEnum X_509) \<and> is_bytes (PyBytes example_bytes)
   \<and> DummyCertificate_default (PyEnum X_509) (PyBytes example_bytes) =
       Inr \<lparr>pc_certificate_type = X_509,
            pc_value = example_bytes,
            pc_cryptographic_usage_masks = [],
            pc_names = [''Certificate''],
            pc_object_type = CERTIFICATE\<rparr>"
  using
    certificate_construction_contract
      [of "PyStr ''invalid''" "PyBytes example_bytes" PyNone "PyStr ''Certificate''"]
    certificate_construction_contract
      [of "PyEnum X_509" "PyInt 0" PyNone "PyStr ''Certificate''"]
    certificate_construction_contract
      [of "PyEnum X_509" "PyBytes example_bytes" "PyStr ''invalid''" "PyStr ''Certificate''"]
    certificate_construction_contract
      [of "PyEnum X_509" "PyBytes example_bytes" "PyList [PyStr ''invalid'']"
        "PyStr ''Certificate''"]
    certificate_construction_contract
      [of "PyEnum X_509" "PyBytes example_bytes" PyNone "PyInt 0"]
  by (simp add: is_certificate_type_def is_bytes_def is_str_def is_mask_list_def
      is_cryptographic_usage_mask_def)

text \<open>
  Claim C9. Instantiating the abstract entity fails with a construction error whatever
  the arguments, also those that construct the concrete specialization. A class that is
  instantiated defines every abstract method, so it is not the abstract entity, and the
  object it constructs has the certificate tag as its object type.
\<close>

theorem abstract_certificate:
  "instantiate Certificate t v m n = Inl ConstructionValidationError
   \<and> (instantiate cls t v m n = Inr c \<longrightarrow>
        cls \<noteq> Certificate \<and> abstract_methods \<subseteq> defined_methods cls
        \<and> pc_object_type c = CERTIFICATE)"
proof -
  have 1: "instantiate Certificate t v m n = Inl ConstructionValidationError"
    by (simp add: instantiate_def abstract_methods_def)
  have 2: "abstract_methods \<subseteq> defined_methods cls \<and> Certificate_init t v m n = Inr c"
    if "instantiate cls t v m n = Inr c"
    using that by (simp add: instantiate_def split: if_splits)
  have 3: "pc_object_type c = CERTIFICATE" if "Certificate_init t v m n = Inr c"
    using that by (auto simp: Certificate_init_def split: if_splits)
  have 4: "cls \<noteq> Certificate" if "instantiate cls t v m n = Inr c"
    using that 1 by auto
  show ?thesis using 1 2 3 4 by blast
qed

text \<open>The arguments of \<^verbatim>\<open>test_init_certificate\<close>, for the abstract and the concrete class.\<close>

theorem abstract_certificate_witness:
  "instantiate Certificate (PyEnum X_509) (PyBytes example_bytes) PyNone (PyStr ''Certificate'') =
     Inl ConstructionValidationError
   \<and> instantiate DummyCertificate (PyEnum X_509) (PyBytes example_bytes) PyNone
        (PyStr ''Certificate'') =
       Inr \<lparr>pc_certificate_type = X_509,
            pc_value = example_bytes,
            pc_cryptographic_usage_masks = [],
            pc_names = [''Certificate''],
            pc_object_type = CERTIFICATE\<rparr>
   \<and> DummyCertificate \<noteq> Certificate
   \<and> abstract_methods \<subseteq> defined_methods DummyCertificate"
proof -
  have i: "instantiate DummyCertificate (PyEnum X_509) (PyBytes example_bytes) PyNone
        (PyStr ''Certificate'') =
       Inr \<lparr>pc_certificate_type = X_509,
            pc_value = example_bytes,
            pc_cryptographic_usage_masks = [],
            pc_names = [''Certificate''],
            pc_object_type = CERTIFICATE\<rparr>"
    by (simp add: instantiate_def abstract_methods_def Certificate_init_def
        is_certificate_type_def is_bytes_def is_str_def)
  show ?thesis
    using i
      abstract_certificate [of "PyEnum X_509" "PyBytes example_bytes" PyNone
        "PyStr ''Certificate''" DummyCertificate
        "\<lparr>pc_certificate_type = X_509,
          pc_value = example_bytes,
          pc_cryptographic_usage_masks = [],
          pc_names = [''Certificate''],
          pc_object_type = CERTIFICATE\<rparr>"]
    by simp
qed

section \<open>Converting twice\<close>

subsection \<open>The constructors undo the builders\<close>













subsection \<open>Each variant\<close>












end
